theory Spec2Isabelle
  imports Main "HOL-Library.Word"
begin

section \<open>JavaScript values used by app.js\<close>

text \<open>
  A JavaScript string is a sequence of UTF-16 code units. Regular expressions without the
  \<^verbatim>\<open>u\<close> flag, \<^verbatim>\<open>split('')\<close> and \<^verbatim>\<open>===\<close> all work on code units, so the
  embedding keeps that representation.
\<close>

type_synonym code_unit = "16 word"
type_synonym js_string = "code_unit list"

text \<open>ASCII literals of the source are written \<open>js ''...''\<close>.\<close>

definition js :: "string \<Rightarrow> js_string" where
  "js s = map of_char s"

text \<open>
  The values that reach \<^verbatim>\<open>String(...)\<close> in app.js: \<^verbatim>\<open>undefined\<close>, \<^verbatim>\<open>null\<close>,
  a string, or the array of strings that \<^verbatim>\<open>querystring.parse\<close> builds for a repeated key.
\<close>

datatype js_value = Undefined | Null | Str js_string | Arr "js_string list"

text \<open>\<^verbatim>\<open>Array.prototype.join(sep)\<close> on an array of strings.\<close>

fun join :: "js_string \<Rightarrow> js_string list \<Rightarrow> js_string" where
  "join sep [] = []"
| "join sep [x] = x"
| "join sep (x # y # r) = x @ sep @ join sep (y # r)"

text \<open>\<^verbatim>\<open>String(v)\<close>; an array is joined with commas.\<close>

fun js_String :: "js_value \<Rightarrow> js_string" where
  "js_String Undefined = js ''undefined''"
| "js_String Null = js ''null''"
| "js_String (Str s) = s"
| "js_String (Arr xs) = join (js '','') xs"

text \<open>\<^verbatim>\<open>v ?? d\<close>\<close>

fun nullish :: "js_value \<Rightarrow> js_value \<Rightarrow> js_value" where
  "nullish Undefined d = d"
| "nullish Null d = d"
| "nullish v d = v"

text \<open>\<^verbatim>\<open>s.split(sep)\<close> for a separator of one code unit; the result is never empty.\<close>

fun split_on :: "code_unit \<Rightarrow> js_string \<Rightarrow> js_string list" where
  "split_on sep [] = [[]]"
| "split_on sep (c # cs) =
     (if c = sep then [] # split_on sep cs
      else (case split_on sep cs of
              [] \<Rightarrow> [[c]]
            | p # ps \<Rightarrow> (c # p) # ps))"

text \<open>\<^verbatim>\<open>s.split('')\<close>, \<^verbatim>\<open>a.reverse()\<close> and \<^verbatim>\<open>a.join('')\<close>.\<close>

definition split_units :: "js_string \<Rightarrow> js_string list" where
  "split_units s = map (\<lambda>c. [c]) s"

definition reverse :: "'a list \<Rightarrow> 'a list" where
  "reverse a = rev a"

definition join_units :: "js_string list \<Rightarrow> js_string" where
  "join_units a = join [] a"

text \<open>
  \<^verbatim>\<open>String.prototype.trim\<close> removes WhiteSpace and LineTerminator code units from both ends
  (ECMA-262: TAB, VT, FF, SP, NBSP, ZWNBSP, the space separators, LF, CR, LS, PS).
\<close>

definition is_space :: "code_unit \<Rightarrow> bool" where
  "is_space c \<longleftrightarrow>
     c = 0x0009 \<or> c = 0x000A \<or> c = 0x000B \<or> c = 0x000C \<or> c = 0x000D \<or> c = 0x0020 \<or>
     c = 0x00A0 \<or> c = 0x1680 \<or> (0x2000 \<le> c \<and> c \<le> 0x200A) \<or> c = 0x2028 \<or>
     c = 0x2029 \<or> c = 0x202F \<or> c = 0x205F \<or> c = 0x3000 \<or> c = 0xFEFF"

definition trim :: "js_string \<Rightarrow> js_string" where
  "trim s = rev (dropWhile is_space (rev (dropWhile is_space s)))"

section \<open>The platform's Unicode functions\<close>

text \<open>
  \<^verbatim>\<open>toLowerCase\<close> and \<^verbatim>\<open>normalize('NFD')\<close> belong to the JavaScript runtime, not to
  app.js, and rest on the Unicode character database. On text whose code units all lie in
  Basic Latin and Latin-1 Supplement (U+0000 to U+00FF) they are written out below from
  the Unicode data; on any other text they are whatever the runtime \<open>R\<close> supplies. The
  same holds for the percent-decoding of the query parser, written out further down for
  escapes of ASCII characters. A theorem with a free \<open>R\<close> therefore holds for every
  behaviour of the runtime outside those ranges.
\<close>

record runtime =
  lower_wide :: "js_string \<Rightarrow> js_string"
  nfd_wide :: "js_string \<Rightarrow> js_string"
  unescape_other :: "bool \<Rightarrow> js_string \<Rightarrow> js_string"

definition is_latin1 :: "js_string \<Rightarrow> bool" where
  "is_latin1 s = list_all (\<lambda>c. c \<le> 0x00FF) s"

text \<open>
  Lowercase mapping of U+0000..U+00FF: A..Z and the capital letters U+00C0..U+00DE
  (U+00D7 is the multiplication sign) move up by 0x20; nothing else changes, and no letter
  of this range has a context-dependent mapping.
\<close>

definition lower_latin1 :: "code_unit \<Rightarrow> code_unit" where
  "lower_latin1 c =
     (if (0x0041 \<le> c \<and> c \<le> 0x005A) \<or> (0x00C0 \<le> c \<and> c \<le> 0x00DE \<and> c \<noteq> 0x00D7)
      then c + 0x0020 else c)"

definition toLowerCase :: "runtime \<Rightarrow> js_string \<Rightarrow> js_string" where
  "toLowerCase R s = (if is_latin1 s then map lower_latin1 s else lower_wide R s)"

text \<open>
  Canonical decompositions of U+0000..U+00FF (UnicodeData.txt): each entry is a letter,
  its base letter and its combining mark. The compatibility decompositions of this range
  (U+00A0, U+00AA, U+00B5, ...) are not used by NFD. A text of this range holds no
  combining mark of its own, so no canonical reordering takes place.
\<close>

definition latin1_decomposition :: "(code_unit \<times> code_unit \<times> code_unit) list" where
  "latin1_decomposition =
    [(0x00C0, 0x0041, 0x0300), (0x00C1, 0x0041, 0x0301), (0x00C2, 0x0041, 0x0302),
     (0x00C3, 0x0041, 0x0303), (0x00C4, 0x0041, 0x0308), (0x00C5, 0x0041, 0x030A),
     (0x00C7, 0x0043, 0x0327),
     (0x00C8, 0x0045, 0x0300), (0x00C9, 0x0045, 0x0301), (0x00CA, 0x0045, 0x0302),
     (0x00CB, 0x0045, 0x0308),
     (0x00CC, 0x0049, 0x0300), (0x00CD, 0x0049, 0x0301), (0x00CE, 0x0049, 0x0302),
     (0x00CF, 0x0049, 0x0308),
     (0x00D1, 0x004E, 0x0303),
     (0x00D2, 0x004F, 0x0300), (0x00D3, 0x004F, 0x0301), (0x00D4, 0x004F, 0x0302),
     (0x00D5, 0x004F, 0x0303), (0x00D6, 0x004F, 0x0308),
     (0x00D9, 0x0055, 0x0300), (0x00DA, 0x0055, 0x0301), (0x00DB, 0x0055, 0x0302),
     (0x00DC, 0x0055, 0x0308),
     (0x00DD, 0x0059, 0x0301),
     (0x00E0, 0x0061, 0x0300), (0x00E1, 0x0061, 0x0301), (0x00E2, 0x0061, 0x0302),
     (0x00E3, 0x0061, 0x0303), (0x00E4, 0x0061, 0x0308), (0x00E5, 0x0061, 0x030A),
     (0x00E7, 0x0063, 0x0327),
     (0x00E8, 0x0065, 0x0300), (0x00E9, 0x0065, 0x0301), (0x00EA, 0x0065, 0x0302),
     (0x00EB, 0x0065, 0x0308),
     (0x00EC, 0x0069, 0x0300), (0x00ED, 0x0069, 0x0301), (0x00EE, 0x0069, 0x0302),
     (0x00EF, 0x0069, 0x0308),
     (0x00F1, 0x006E, 0x0303),
     (0x00F2, 0x006F, 0x0300), (0x00F3, 0x006F, 0x0301), (0x00F4, 0x006F, 0x0302),
     (0x00F5, 0x006F, 0x0303), (0x00F6, 0x006F, 0x0308),
     (0x00F9, 0x0075, 0x0300), (0x00FA, 0x0075, 0x0301), (0x00FB, 0x0075, 0x0302),
     (0x00FC, 0x0075, 0x0308),
     (0x00FD, 0x0079, 0x0301), (0x00FF, 0x0079, 0x0308)]"

definition decompose_latin1 :: "code_unit \<Rightarrow> js_string" where
  "decompose_latin1 c =
     (case map_of latin1_decomposition c of
        None \<Rightarrow> [c]
      | Some (base, mark) \<Rightarrow> [base, mark])"

definition normalizeNFD :: "runtime \<Rightarrow> js_string \<Rightarrow> js_string" where
  "normalizeNFD R s = (if is_latin1 s then concat (map decompose_latin1 s) else nfd_wide R s)"

section \<open>normalizeWord and isPalindrome\<close>

text \<open>\<^verbatim>\<open>.replace(/[...]/g, '')\<close> with the class U+0300 to U+036F.\<close>

definition is_diacritic :: "code_unit \<Rightarrow> bool" where
  "is_diacritic c \<longleftrightarrow> 0x0300 \<le> c \<and> c \<le> 0x036F"

definition remove_diacritics :: "js_string \<Rightarrow> js_string" where
  "remove_diacritics s = filter (\<lambda>c. \<not> is_diacritic c) s"

text \<open>\<^verbatim>\<open>.replace(/[^a-z0-9]/g, '')\<close>: every code unit outside a-z and 0-9 goes.\<close>

definition is_az09 :: "code_unit \<Rightarrow> bool" where
  "is_az09 c \<longleftrightarrow> (0x0061 \<le> c \<and> c \<le> 0x007A) \<or> (0x0030 \<le> c \<and> c \<le> 0x0039)"

definition keep_alphanumerics :: "js_string \<Rightarrow> js_string" where
  "keep_alphanumerics s = filter is_az09 s"

definition normalizeWord :: "runtime \<Rightarrow> js_value \<Rightarrow> js_string" where
  "normalizeWord R input =
     (let s = remove_diacritics
                (normalizeNFD R (toLowerCase R (js_String (nullish input (Str [])))))
      in keep_alphanumerics s)"

definition isPalindrome :: "runtime \<Rightarrow> js_value \<Rightarrow> bool" where
  "isPalindrome R word =
     (let n = normalizeWord R word in
      if n = [] then False
      else (let reversed = join_units (reverse (split_units n)) in n = reversed))"

section \<open>Code points\<close>

text \<open>
  The reading of a string as Unicode code points (ECMA-262, StringToCodePoints and
  CodePointsToString): a lead surrogate followed by a trail surrogate is one code point,
  every other code unit is a code point of its own. \<open>reverse_code_points\<close> is the
  reversal by code points that the specification asks for; app.js reverses code units.
\<close>

definition is_lead :: "code_unit \<Rightarrow> bool" where
  "is_lead c \<longleftrightarrow> 0xD800 \<le> c \<and> c \<le> 0xDBFF"

definition is_trail :: "code_unit \<Rightarrow> bool" where
  "is_trail c \<longleftrightarrow> 0xDC00 \<le> c \<and> c \<le> 0xDFFF"

fun StringToCodePoints :: "js_string \<Rightarrow> nat list" where
  "StringToCodePoints [] = []"
| "StringToCodePoints [c] = [unat c]"
| "StringToCodePoints (h # l # r) =
     (if is_lead h \<and> is_trail l
      then (0x10000 + (unat h - 0xD800) * 0x400 + (unat l - 0xDC00)) # StringToCodePoints r
      else unat h # StringToCodePoints (l # r))"

definition UTF16EncodeCodePoint :: "nat \<Rightarrow> js_string" where
  "UTF16EncodeCodePoint cp =
     (if cp \<le> 0xFFFF then [of_nat cp]
      else [of_nat (0xD800 + (cp - 0x10000) div 0x400),
            of_nat (0xDC00 + (cp - 0x10000) mod 0x400)])"

definition CodePointsToString :: "nat list \<Rightarrow> js_string" where
  "CodePointsToString cps = concat (map UTF16EncodeCodePoint cps)"

definition reverse_code_points :: "js_string \<Rightarrow> js_string" where
  "reverse_code_points s = CodePointsToString (rev (StringToCodePoints s))"

section \<open>The normalization as the specification words it\<close>

text \<open>
  Section 4.1 of the specification, steps 1 to 4: coerce (absent or null is the empty
  text), lowercase, decompose and strip the combining marks U+0300 to U+036F, then remove
  every character that is not an ASCII letter or digit. Unlike the regular expression of
  app.js, the last step is written with the whole ASCII alphabet, capitals included.
\<close>

definition is_ascii_letter_or_digit :: "code_unit \<Rightarrow> bool" where
  "is_ascii_letter_or_digit c \<longleftrightarrow>
     (0x0041 \<le> c \<and> c \<le> 0x005A) \<or> (0x0061 \<le> c \<and> c \<le> 0x007A) \<or>
     (0x0030 \<le> c \<and> c \<le> 0x0039)"

definition spec_coerce :: "js_value \<Rightarrow> js_string" where
  "spec_coerce v = (case v of Undefined \<Rightarrow> [] | Null \<Rightarrow> [] | _ \<Rightarrow> js_String v)"

definition spec_strip_marks :: "runtime \<Rightarrow> js_string \<Rightarrow> js_string" where
  "spec_strip_marks R s = filter (\<lambda>c. \<not> (0x0300 \<le> c \<and> c \<le> 0x036F)) (normalizeNFD R s)"

definition spec_normalize :: "runtime \<Rightarrow> js_value \<Rightarrow> js_string" where
  "spec_normalize R v =
     filter is_ascii_letter_or_digit (spec_strip_marks R (toLowerCase R (spec_coerce v)))"

text \<open>
  A fact of the Unicode tables that the comparison needs: lowercasing followed by
  canonical decomposition leaves no capital A to Z (every character whose decomposition
  starts with an ASCII capital has a lowercase mapping).
\<close>

definition is_capital :: "code_unit \<Rightarrow> bool" where
  "is_capital c \<longleftrightarrow> 0x0041 \<le> c \<and> c \<le> 0x005A"

definition lowering_leaves_no_capital :: "runtime \<Rightarrow> bool" where
  "lowering_leaves_no_capital R \<longleftrightarrow>
     (\<forall>s. list_all (\<lambda>c. \<not> is_capital c) (normalizeNFD R (toLowerCase R s)))"

text \<open>
  A runtime whose tables end at U+00FF: beyond that range it lowercases and decomposes
  the Latin-1 letters only and decodes nothing. It serves as the concrete runtime of the
  closed examples, all of which stay within U+0000 to U+00FF.
\<close>

definition latin1_runtime :: runtime where
  "latin1_runtime =
     \<lparr> lower_wide = map lower_latin1,
       nfd_wide = (\<lambda>s. concat (map decompose_latin1 s)),
       unescape_other = (\<lambda>is_key s. s) \<rparr>"

section \<open>querystring.parse\<close>

text \<open>
  \<^verbatim>\<open>querystring.parse(str)\<close> is Node's library function (lib/querystring.js), called with
  its defaults: separator \<^verbatim>\<open>&\<close>, assignment \<^verbatim>\<open>=\<close>, at most 1000 pairs. The string is cut
  at every \<^verbatim>\<open>&\<close>; empty pieces are skipped; a piece is cut at its first \<^verbatim>\<open>=\<close> into key
  and value (no \<^verbatim>\<open>=\<close>: the value is empty); \<^verbatim>\<open>+\<close> becomes a space; key and value are
  percent-decoded. A key that occurs again turns its
  property into an array that collects the values in order (addKeyValue).
\<close>

definition hex_digit :: "code_unit \<Rightarrow> code_unit option" where
  "hex_digit c =
     (if 0x0030 \<le> c \<and> c \<le> 0x0039 then Some (c - 0x0030)
      else if 0x0041 \<le> c \<and> c \<le> 0x0046 then Some (c - 0x0037)
      else if 0x0061 \<le> c \<and> c \<le> 0x0066 then Some (c - 0x0057)
      else None)"

text \<open>
  \<^verbatim>\<open>decodeURIComponent\<close> on a text in which every \<^verbatim>\<open>%\<close> starts an escape of an ASCII
  character (\<^verbatim>\<open>%00\<close> to \<^verbatim>\<open>%7F\<close>): each escape becomes that character, and a text
  without \<^verbatim>\<open>%\<close> is returned as it is. \<open>None\<close> when the text has any other \<^verbatim>\<open>%\<close> (a
  UTF-8 sequence, or a malformed escape).
\<close>

fun decode_ascii_escapes :: "js_string \<Rightarrow> js_string option" where
  "decode_ascii_escapes [] = Some []"
| "decode_ascii_escapes (c # cs) =
     (if c = 0x0025 then
        (case cs of
           h # l # r \<Rightarrow>
             (case (hex_digit h, hex_digit l) of
                (Some a, Some b) \<Rightarrow>
                  (if a < 8 then map_option ((#) (16 * a + b)) (decode_ascii_escapes r)
                   else None)
              | _ \<Rightarrow> None)
         | _ \<Rightarrow> None)
      else map_option ((#) c) (decode_ascii_escapes cs))"

definition plus_to_space :: "js_string \<Rightarrow> js_string" where
  "plus_to_space s = map (\<lambda>c. if c = 0x002B then 0x0020 else c) s"

text \<open>
  The decoded form of a raw key (\<open>is_key\<close>) or value. The parser scans the raw text,
  replaces \<^verbatim>\<open>+\<close> by a space and, once it has met an escape, passes the result to
  \<^verbatim>\<open>decodeStr\<close>, that is \<^verbatim>\<open>qsUnescape\<close>: \<^verbatim>\<open>decodeURIComponent\<close>, with \<^verbatim>\<open>unescapeBuffer\<close> as
  the fallback. Where the raw text has no \<^verbatim>\<open>%\<close>, or only escapes of ASCII characters,
  the outcome is written out. Any other raw text (a UTF-8 escape, a malformed one) is
  handed to the runtime as it stands, before any replacement, together with its role,
  since the parser's decision to decode depends on both.
\<close>

definition decodeStr :: "runtime \<Rightarrow> bool \<Rightarrow> js_string \<Rightarrow> js_string" where
  "decodeStr R is_key raw =
     (case decode_ascii_escapes (plus_to_space raw) of
        Some d \<Rightarrow> d
      | None \<Rightarrow> unescape_other R is_key raw)"

definition split_pair :: "js_string \<Rightarrow> js_string \<times> js_string" where
  "split_pair p =
     (takeWhile (\<lambda>c. c \<noteq> 0x003D) p, drop 1 (dropWhile (\<lambda>c. c \<noteq> 0x003D) p))"

definition decode_pair :: "runtime \<Rightarrow> js_string \<Rightarrow> js_string \<times> js_string" where
  "decode_pair R p =
     (let (k, v) = split_pair p
      in (decodeStr R True k, decodeStr R False v))"

definition qs_pairs :: "runtime \<Rightarrow> js_string \<Rightarrow> (js_string \<times> js_string) list" where
  "qs_pairs R qs =
     map (decode_pair R) (filter (\<lambda>p. p \<noteq> []) (take 1000 (split_on 0x0026 qs)))"

datatype qs_value = Single js_string | Multiple "js_string list"

type_synonym query = "js_string \<rightharpoonup> qs_value"

definition addKeyValue :: "query \<Rightarrow> js_string \<times> js_string \<Rightarrow> query" where
  "addKeyValue obj kv =
     (case kv of (key, val) \<Rightarrow>
        (case obj key of
           None \<Rightarrow> obj(key \<mapsto> Single val)
         | Some (Single curValue) \<Rightarrow> obj(key \<mapsto> Multiple [curValue, val])
         | Some (Multiple curValue) \<Rightarrow> obj(key \<mapsto> Multiple (curValue @ [val]))))"

definition querystring_parse :: "runtime \<Rightarrow> js_string \<Rightarrow> query" where
  "querystring_parse R qs = foldl addKeyValue Map.empty (qs_pairs R qs)"

text \<open>Reading a property of the parsed object: \<^verbatim>\<open>query.palabra\<close>.\<close>

definition property :: "query \<Rightarrow> js_string \<Rightarrow> js_value" where
  "property obj key =
     (case obj key of
        None \<Rightarrow> Undefined
      | Some (Single v) \<Rightarrow> Str v
      | Some (Multiple vs) \<Rightarrow> Arr vs)"

section \<open>The server\<close>

record request =
  req_method :: js_string
  req_url :: js_string

record response =
  statusCode :: nat
  contentType :: js_string
  body :: js_string

text \<open>
  \<^verbatim>\<open>fs.appendFile(path, data, 'utf8')\<close> is a parameter of the model: given the path, the
  text and the file system, it returns the error it rejects with, if any, and the file
  system afterwards. Every behaviour of the disk is covered that way. The state of a
  request also records each call of \<^verbatim>\<open>appendFile\<close> and each line of \<^verbatim>\<open>console.error\<close>.
\<close>

datatype io_error = IOError (message: js_string)

type_synonym 'fs appendFile = "js_string \<Rightarrow> js_string \<Rightarrow> 'fs \<Rightarrow> io_error option \<times> 'fs"

datatype console_arg = Text js_string | Thrown io_error

record 'fs io =
  disk :: 'fs
  appendFile_calls :: "(js_string \<times> js_string) list"
  console_error :: "console_arg list list"

definition sendHtml :: "js_string \<Rightarrow> nat \<Rightarrow> response" where
  "sendHtml html status =
     \<lparr> statusCode = status, contentType = js ''text/html; charset=utf-8'', body = html \<rparr>"

definition sendText :: "js_string \<Rightarrow> nat \<Rightarrow> response" where
  "sendText text status =
     \<lparr> statusCode = status, contentType = js ''text/plain; charset=utf-8'', body = text \<rparr>"

text \<open>The word of the messages; its third letter is U+00ED, the accented i.\<close>

definition palindromo :: js_string where
  "palindromo = js ''pal'' @ [0x00ED] @ js ''ndromo''"

definition page :: "js_string \<Rightarrow> js_string \<Rightarrow> js_string" where
  \<open>page title content = join [0x000A]
     [js ''<!doctype html>'',
      js ''<html lang="es">'',
      js ''  <head>'',
      js ''    <meta charset="utf-8" />'',
      js ''    <title>'' @ title @ js ''</title>'',
      js ''    <meta name="viewport" content="width=device-width, initial-scale=1" />'',
      js ''    <style>'',
      js ''      body{font-family: ui-sans-serif, system-ui, -apple-system, Segoe UI, Roboto, Ubuntu, Cantarell, Noto Sans, Arial; margin:2rem; line-height:1.55}'',
      js ''      input,button{font:inherit; padding:.5rem .7rem}'',
      js ''      label{display:block; margin:.75rem 0 .35rem}'',
      js ''      .muted{color:#0008}'',
      js ''      code{background:#0001; padding:.1rem .35rem; border-radius:4px}'',
      js ''    </style>'',
      js ''  </head>'',
      js ''  <body>'' @ content @ js ''</body>'',
      js ''</html>'']\<close>

definition form_page :: js_string where
  \<open>form_page = page (js ''Comprobar '' @ palindromo) (join [0x000A]
     [[],
      js ''          <h1>Comprobar '' @ palindromo @ js ''</h1>'',
      js ''          <p class="muted">Este formulario env'' @ [0x00ED] @ js ''a una petici'' @ [0x00F3]
        @ js ''n <code>GET</code> al endpoint <code>/comprobar</code>.</p>'',
      js ''          <form action="/comprobar" method="GET">'',
      js ''            <label for="palabra">Palabra</label>'',
      js ''            <input id="palabra" name="palabra" type="text" required autocomplete="off" />'',
      js ''            <button type="submit">Comprobar</button>'',
      js ''          </form>'',
      js ''          <p class="muted">Ejemplos: radar, reconocer, '' @ [0x201C]
        @ js ''Anita lava la tina'' @ [0x201D] @ js '', '' @ [0x201C] @ js ''S'' @ [0x00E9]
        @ js '' verlas al rev'' @ [0x00E9] @ js ''s'' @ [0x201D] @ js ''.</p>'',
      js ''        ''])\<close>

definition not_found_page :: js_string where
  \<open>not_found_page =
     page (js ''404'') (js ''<h1>404 - Ruta no encontrada</h1><p><a href="/">Volver</a></p>'')\<close>

text \<open>The line that \<^verbatim>\<open>logQuery\<close> builds, with its final line feed.\<close>

definition log_line :: "js_string \<Rightarrow> bool \<Rightarrow> js_string" where
  \<open>log_line originalWord result =
     js ''El usuario ha comprobado la palabra "'' @ originalWord @ js ''" y ''
       @ (if result then js ''es'' else js ''NO es'') @ js '' un '' @ palindromo
       @ js ''.'' @ [0x000A]\<close>

text \<open>
  \<^verbatim>\<open>logQuery\<close>: \<open>logPath\<close> stands for \<^verbatim>\<open>path.resolve(__dirname, 'consultas.txt')\<close>. The
  result \<open>Some e\<close> is the rejection of the promise.
\<close>

definition logQuery ::
  "js_string \<Rightarrow> 'fs appendFile \<Rightarrow> js_string \<Rightarrow> bool \<Rightarrow> 'fs io \<Rightarrow> io_error option \<times> 'fs io" where
  "logQuery logPath appendFile originalWord result s =
     (let line = log_line originalWord result;
          (err, d) = appendFile logPath line (disk s)
      in (err, s\<lparr> disk := d, appendFile_calls := appendFile_calls s @ [(logPath, line)] \<rparr>))"

text \<open>\<^verbatim>\<open>queryString.replace(/^\?/, '')\<close>\<close>

definition strip_question_mark :: "js_string \<Rightarrow> js_string" where
  "strip_question_mark s = (case s of c # cs \<Rightarrow> (if c = 0x003F then cs else s) | [] \<Rightarrow> [])"

text \<open>\<^verbatim>\<open>const [ pathname = '/', queryString = '' ] = req.url.split('?')\<close>\<close>

definition pathname_of :: "js_string \<Rightarrow> js_string" where
  "pathname_of u = (case split_on 0x003F u of [] \<Rightarrow> js ''/'' | p # _ \<Rightarrow> p)"

definition queryString_of :: "js_string \<Rightarrow> js_string" where
  "queryString_of u = (case split_on 0x003F u of _ # q # _ \<Rightarrow> q | _ \<Rightarrow> [])"

definition query_of :: "runtime \<Rightarrow> js_string \<Rightarrow> query" where
  "query_of R u = querystring_parse R (strip_question_mark (queryString_of u))"

text \<open>\<^verbatim>\<open>query?.palabra != null ? String(query.palabra).trim() : ''\<close>\<close>

definition palabraRaw_of :: "query \<Rightarrow> js_string" where
  "palabraRaw_of q =
     (case property q (js ''palabra'') of
        Undefined \<Rightarrow> []
      | Null \<Rightarrow> []
      | v \<Rightarrow> trim (js_String v))"

definition mensaje_of :: "js_string \<Rightarrow> bool \<Rightarrow> js_string" where
  "mensaje_of palabraRaw resultado =
     js ''La palabra '' @ palabraRaw @ js '' ''
       @ (if resultado then js ''es'' else js ''NO es'') @ js '' un '' @ palindromo"

definition missing_palabra :: js_string where
  \<open>missing_palabra =
     js ''Falta el par'' @ [0x00E1] @ js ''metro "palabra". Ejemplo: /comprobar?palabra=radar''\<close>

text \<open>The \<^verbatim>\<open>catch\<close> of the logging block: \<^verbatim>\<open>console.error('[logQuery] Error:', err.message || err)\<close>.\<close>

definition report_log_error :: "io_error \<Rightarrow> 'fs io \<Rightarrow> 'fs io" where
  "report_log_error err s =
     s\<lparr> console_error := console_error s @
          [[Text (js ''[logQuery] Error:''),
            (if message err \<noteq> [] then Text (message err) else Thrown err)]] \<rparr>"

text \<open>
  The request listener. Nothing in its body throws on a request whose method and URL are
  strings (Node supplies both), so the outer \<^verbatim>\<open>catch\<close> with its status 500 has no branch
  here. One call handles one request; the interleaving of several requests is not
  modelled.
\<close>

definition handler ::
  "runtime \<Rightarrow> js_string \<Rightarrow> 'fs appendFile \<Rightarrow> request \<Rightarrow> 'fs io \<Rightarrow> response \<times> 'fs io" where
  "handler R logPath appendFile req s =
     (if req_method req \<noteq> js ''GET'' then (sendText (js ''Method Not Allowed'') 405, s)
      else
        let pathname = pathname_of (req_url req);
            query = query_of R (req_url req)
        in if pathname = js ''/'' then (sendHtml form_page 200, s)
           else if pathname = js ''/comprobar'' then
             (let palabraRaw = palabraRaw_of query
              in if palabraRaw = [] then (sendText missing_palabra 400, s)
                 else
                   let resultado = isPalindrome R (Str palabraRaw);
                       mensaje = mensaje_of palabraRaw resultado;
                       (err, s1) = logQuery logPath appendFile palabraRaw resultado s;
                       s2 = (case err of None \<Rightarrow> s1 | Some e \<Rightarrow> report_log_error e s1)
                   in (sendText mensaje 200, s2))
           else (sendHtml not_found_page 404, s))"

text \<open>
  What the parsed object holds under a key, as a list, and the decoded values of the
  occurrences of a key among the pairs of a query string, in order of appearance.
  \<open>palabra_values\<close> are those of the key \<^verbatim>\<open>palabra\<close> in the query string of a URL.
\<close>

definition held :: "query \<Rightarrow> js_string \<Rightarrow> js_string list" where
  "held obj key =
     (case obj key of None \<Rightarrow> [] | Some (Single v) \<Rightarrow> [v] | Some (Multiple vs) \<Rightarrow> vs)"

definition values_of :: "js_string \<Rightarrow> (js_string \<times> js_string) list \<Rightarrow> js_string list" where
  "values_of key pairs = map snd (filter (\<lambda>kv. fst kv = key) pairs)"

definition palabra_values :: "runtime \<Rightarrow> js_string \<Rightarrow> js_string list" where
  "palabra_values R u =
     values_of (js ''palabra'') (qs_pairs R (strip_question_mark (queryString_of u)))"

section \<open>Sample inputs\<close>

text \<open>The phrases of the specification's examples; U+00E9 is the accented e.\<close>

definition anita :: js_string where
  "anita = js ''Anita lava la tina''"

definition se_verlas :: js_string where
  "se_verlas = js ''S'' @ [0x00E9] @ js '' verlas al rev'' @ [0x00E9] @ js ''s''"

text \<open>
  Two disks whose state is the text of the log file: one appends, one rejects every
  append and leaves the file as it is. \<open>fresh\<close> is the state before the first request.
\<close>

text \<open>
  A value with white space around it (two spaces before, a tab after) and one of white
  space only, as the requests \<^verbatim>\<open>palabra=%20+radar%09\<close> and \<^verbatim>\<open>palabra=%20+\<close> supply
  them.
\<close>

definition padded_radar :: js_string where
  "padded_radar = [0x0020, 0x0020] @ js ''radar'' @ [0x0009]"

definition blank :: js_string where
  "blank = [0x0020, 0x0020]"

definition healthy_disk :: "js_string appendFile" where
  "healthy_disk path data content = (None, content @ data)"

definition broken_disk :: "js_string appendFile" where
  "broken_disk path data content = (Some (IOError (js ''EACCES: permission denied'')), content)"

definition fresh :: "js_string io" where
  "fresh = \<lparr> disk = [], appendFile_calls = [], console_error = [] \<rparr>"

definition consultas_txt :: js_string where
  "consultas_txt = js ''/srv/app/consultas.txt''"

definition get :: "js_string \<Rightarrow> request" where
  "get u = \<lparr> req_method = js ''GET'', req_url = u \<rparr>"

section \<open>Evaluation\<close>

lemmas normalize_eval =
  js_def normalizeWord_def isPalindrome_def toLowerCase_def normalizeNFD_def is_latin1_def
  lower_latin1_def decompose_latin1_def latin1_decomposition_def remove_diacritics_def
  is_diacritic_def keep_alphanumerics_def is_az09_def split_units_def reverse_def
  join_units_def

lemmas handler_eval =
  handler_def pathname_of_def queryString_of_def query_of_def querystring_parse_def
  qs_pairs_def decode_pair_def split_pair_def plus_to_space_def decodeStr_def
  hex_digit_def addKeyValue_def property_def palabraRaw_of_def trim_def is_space_def
  strip_question_mark_def mensaje_of_def palindromo_def sendText_def logQuery_def
  log_line_def report_log_error_def get_def healthy_disk_def broken_disk_def fresh_def
  consultas_txt_def missing_palabra_def

section \<open>Facts about the helpers\<close>

lemma join_empty_sep: "join [] xs = concat xs"
  by (induction "[] :: js_string" xs rule: join.induct) simp_all

lemma reversed_eq_rev: "join_units (reverse (split_units n)) = rev n"
proof -
  have "concat (rev (map (\<lambda>c. [c]) n)) = rev n"
    by (induction n) simp_all
  then show ?thesis
    by (simp add: join_units_def reverse_def split_units_def join_empty_sep)
qed

lemma az09_latin1: "list_all is_az09 s \<Longrightarrow> is_latin1 s"
  by (induction s) (auto simp: is_latin1_def is_az09_def word_le_nat_alt)

lemma decomposition_keys: "(c, bm) \<in> set latin1_decomposition \<Longrightarrow> 0x00C0 \<le> c"
  by (auto simp: latin1_decomposition_def)

lemma decompose_below_C0:
  assumes "c < 0x00C0"
  shows "decompose_latin1 c = [c]"
proof -
  from assms have "map_of latin1_decomposition c = None"
    by (auto simp: map_of_eq_None_iff dest!: decomposition_keys)
  then show ?thesis by (simp add: decompose_latin1_def)
qed

lemma decompose_az09: "is_az09 c \<Longrightarrow> decompose_latin1 c = [c]"
  by (rule decompose_below_C0) (auto simp: is_az09_def word_le_nat_alt word_less_nat_alt)

lemma az09_not_diacritic: "is_az09 c \<Longrightarrow> \<not> is_diacritic c"
  by (auto simp: is_az09_def is_diacritic_def word_le_nat_alt)

lemma normalizeWord_az09: "list_all is_az09 (normalizeWord R v)"
  by (simp add: normalizeWord_def keep_alphanumerics_def list_all_iff)

text \<open>A text of a-z and 0-9 passes the decomposition and both filters unchanged.\<close>

lemma after_lowering_az09:
  assumes "list_all is_az09 s"
  shows "keep_alphanumerics (remove_diacritics (normalizeNFD R s)) = s"
proof -
  have l1: "is_latin1 s" using assms by (rule az09_latin1)
  have dec: "concat (map decompose_latin1 s) = s"
    using assms by (induction s) (simp_all add: decompose_az09)
  have dia: "filter (\<lambda>c. \<not> is_diacritic c) s = s"
    using assms by (induction s) (simp_all add: az09_not_diacritic)
  have keep: "filter is_az09 s = s"
    using assms by (induction s) simp_all
  show ?thesis
    by (simp add: normalizeNFD_def remove_diacritics_def keep_alphanumerics_def l1 dec dia keep)
qed

lemma lower_az09: "is_az09 c \<Longrightarrow> lower_latin1 c = c"
  by (auto simp: is_az09_def lower_latin1_def word_le_nat_alt)

lemma normalize_az09_text:
  assumes "list_all is_az09 s"
  shows "normalizeWord R (Str s) = s"
proof -
  have "map lower_latin1 s = s"
    using assms by (induction s) (simp_all add: lower_az09)
  then have "toLowerCase R s = s"
    using az09_latin1 [OF assms] by (simp add: toLowerCase_def)
  then show ?thesis
    by (simp add: normalizeWord_def after_lowering_az09 [OF assms])
qed

lemma lower_alnum_az09: "is_ascii_letter_or_digit c \<Longrightarrow> is_az09 (lower_latin1 c)"
  by (auto simp: is_ascii_letter_or_digit_def is_az09_def lower_latin1_def word_le_nat_alt
      unat_word_ariths)

lemma alnum_latin1: "is_ascii_letter_or_digit c \<Longrightarrow> c \<le> 0x00FF"
  by (auto simp: is_ascii_letter_or_digit_def word_le_nat_alt)

lemma normalize_single_alnum:
  assumes "is_ascii_letter_or_digit c"
  shows "normalizeWord R (Str [c]) = [lower_latin1 c]"
proof -
  have "toLowerCase R [c] = [lower_latin1 c]"
    using alnum_latin1 [OF assms] by (simp add: toLowerCase_def is_latin1_def)
  moreover have "list_all is_az09 [lower_latin1 c]"
    using lower_alnum_az09 [OF assms] by simp
  ultimately show ?thesis
    by (simp add: normalizeWord_def after_lowering_az09)
qed

subsection \<open>Code points of a text without surrogates\<close>

lemma code_points_no_lead:
  "list_all (\<lambda>c. \<not> is_lead c) s \<Longrightarrow> StringToCodePoints s = map unat s"
  by (induction s rule: StringToCodePoints.induct) simp_all

lemma encode_unit: "UTF16EncodeCodePoint (unat (c :: code_unit)) = [c]"
proof -
  have "unat c < 2 ^ 16"
    using unsigned_less [of c, where ?'a = nat] by simp
  then show ?thesis by (simp add: UTF16EncodeCodePoint_def)
qed

lemma encode_units: "CodePointsToString (map unat s) = s"
  by (induction s) (simp_all add: CodePointsToString_def encode_unit)

lemma reverse_code_points_no_lead:
  assumes "list_all (\<lambda>c. \<not> is_lead c) s"
  shows "reverse_code_points s = rev s"
proof -
  have "rev (StringToCodePoints s) = map unat (rev s)"
    by (simp add: code_points_no_lead [OF assms] rev_map)
  then show ?thesis
    by (simp add: reverse_code_points_def encode_units)
qed

lemma az09_not_lead: "is_az09 c \<Longrightarrow> \<not> is_lead c"
  by (auto simp: is_az09_def is_lead_def word_le_nat_alt)

lemma az09_no_lead: "list_all is_az09 s \<Longrightarrow> list_all (\<lambda>c. \<not> is_lead c) s"
  by (induction s) (simp_all add: az09_not_lead)

subsection \<open>Capitals after lowercasing\<close>

lemma coerce_eq: "js_String (nullish v (Str [])) = spec_coerce v"
  by (cases v) (simp_all add: spec_coerce_def)

lemma keep_without_capitals:
  assumes "list_all (\<lambda>c. \<not> is_capital c) t"
  shows "filter is_az09 (filter P t) = filter is_ascii_letter_or_digit (filter P t)"
  using assms
  by (induction t) (auto simp: is_az09_def is_ascii_letter_or_digit_def is_capital_def)

lemma normalizeWord_composition_if:
  assumes "list_all (\<lambda>c. \<not> is_capital c) (normalizeNFD R (toLowerCase R (spec_coerce v)))"
  shows "normalizeWord R v = spec_normalize R v"
  using keep_without_capitals [OF assms, of "\<lambda>c. \<not> is_diacritic c"]
  by (simp add: normalizeWord_def spec_normalize_def spec_strip_marks_def coerce_eq
      remove_diacritics_def keep_alphanumerics_def is_diacritic_def)

lemma lower_not_capital: "\<not> is_capital (lower_latin1 c)"
  by (auto simp: is_capital_def lower_latin1_def word_le_nat_alt unat_word_ariths)

lemma lower_not_capital_accented:
  "\<not> (0x00C0 \<le> lower_latin1 c \<and> lower_latin1 c \<le> 0x00DE \<and> lower_latin1 c \<noteq> 0x00D7)"
  by (auto simp: lower_latin1_def word_le_nat_alt unat_word_ariths)

lemma decomposition_capitals:
  "(c, b, m) \<in> set latin1_decomposition \<Longrightarrow>
     \<not> is_capital m \<and> (is_capital b \<longrightarrow> 0x00C0 \<le> c \<and> c \<le> 0x00DE \<and> c \<noteq> 0x00D7)"
  by (auto simp: latin1_decomposition_def is_capital_def)

lemma decompose_lowered: "list_all (\<lambda>c. \<not> is_capital c) (decompose_latin1 (lower_latin1 c))"
proof (cases "map_of latin1_decomposition (lower_latin1 c)")
  case None
  then show ?thesis by (simp add: decompose_latin1_def lower_not_capital)
next
  case (Some bm)
  obtain b m where bm: "bm = (b, m)" by (cases bm)
  have "(lower_latin1 c, b, m) \<in> set latin1_decomposition"
    using Some bm by (auto dest: map_of_SomeD)
  from decomposition_capitals [OF this] lower_not_capital_accented [of c]
  have "\<not> is_capital m" "\<not> is_capital b" by auto
  then show ?thesis using Some bm by (simp add: decompose_latin1_def)
qed

lemma decompose_lowered_text:
  "list_all (\<lambda>c. \<not> is_capital c) (concat (map (\<lambda>c. decompose_latin1 (lower_latin1 c)) s))"
  by (induction s) (simp_all add: decompose_lowered)

lemma lower_latin1_closed: "c \<le> 0x00FF \<Longrightarrow> lower_latin1 c \<le> 0x00FF"
  by (auto simp: lower_latin1_def word_le_nat_alt unat_word_ariths)

lemma lowered_latin1: "is_latin1 s \<Longrightarrow> is_latin1 (map lower_latin1 s)"
  by (induction s) (simp_all add: is_latin1_def lower_latin1_closed)

text \<open>On input within U+0000 to U+00FF no capital is left, whatever the runtime.\<close>

lemma latin1_input_no_capital:
  "is_latin1 s \<Longrightarrow> list_all (\<lambda>c. \<not> is_capital c) (normalizeNFD R (toLowerCase R s))"
  using decompose_lowered_text [of s]
  by (simp add: toLowerCase_def normalizeNFD_def lowered_latin1 comp_def)

lemma latin1_input_composition:
  "is_latin1 (spec_coerce v) \<Longrightarrow> normalizeWord R v = spec_normalize R v"
  by (rule normalizeWord_composition_if) (rule latin1_input_no_capital)

lemma latin1_runtime_no_capital: "lowering_leaves_no_capital latin1_runtime"
  unfolding lowering_leaves_no_capital_def
proof
  fix s
  have "toLowerCase latin1_runtime s = map lower_latin1 s"
    by (simp add: toLowerCase_def latin1_runtime_def)
  moreover have "normalizeNFD latin1_runtime t = concat (map decompose_latin1 t)" for t
    by (simp add: normalizeNFD_def latin1_runtime_def)
  ultimately show
    "list_all (\<lambda>c. \<not> is_capital c) (normalizeNFD latin1_runtime (toLowerCase latin1_runtime s))"
    using decompose_lowered_text [of s] by (simp add: comp_def)
qed

section \<open>The checker\<close>

text \<open>
  C1. For every input, isPalindrome normalizes the input first; when the normalized text
  is empty the verdict is false, and otherwise the verdict is true exactly when the
  normalized text equals its reversal. The reversal is stated twice: by code units, as
  app.js computes it, and by code points, as the specification words it.
\<close>

theorem isPalindrome_verdict:
  "isPalindrome R word =
     (normalizeWord R word \<noteq> [] \<and> normalizeWord R word = rev (normalizeWord R word)) \<and>
   isPalindrome R word =
     (normalizeWord R word \<noteq> [] \<and>
      normalizeWord R word = reverse_code_points (normalizeWord R word))"
  by (simp add: isPalindrome_def Let_def reversed_eq_rev
      reverse_code_points_no_lead [OF az09_no_lead [OF normalizeWord_az09]])

text \<open>
  C2. For every input, with undefined and null read as the empty text, normalizeWord
  equals the composition of the specification: lowercase, decompose and strip exactly
  U+0300 to U+036F, then remove every character that is not an ASCII letter or digit.
  The regular expression of app.js keeps a-z and 0-9 only, so the two agree as long as
  lowercasing and decomposing leave no capital letter behind, which is the property
  \<open>lowering_leaves_no_capital\<close> of the runtime's Unicode tables.
\<close>

theorem normalizeWord_composition:
  assumes "lowering_leaves_no_capital R"
  shows "normalizeWord R input = spec_normalize R input"
  using assms
  by (intro normalizeWord_composition_if) (simp add: lowering_leaves_no_capital_def)

theorem normalizeWord_composition_witness:
  "lowering_leaves_no_capital latin1_runtime \<and>
   normalizeWord latin1_runtime (Str se_verlas) = spec_normalize latin1_runtime (Str se_verlas) \<and>
   spec_normalize latin1_runtime (Str se_verlas) = js ''severlasalreves''"
proof -
  have "spec_normalize latin1_runtime (Str se_verlas) = js ''severlasalreves''"
    by (simp add: se_verlas_def normalize_eval spec_normalize_def spec_strip_marks_def
        spec_coerce_def is_ascii_letter_or_digit_def)
  then show ?thesis
    using latin1_runtime_no_capital
      normalizeWord_composition [OF latin1_runtime_no_capital, of "Str se_verlas"]
    by simp
qed

text \<open>
  C7. isPalindrome is true for "Anita lava la tina" and for the accented phrase
  "Se verlas al reves" (written with U+00E9), and false for "hola".
\<close>

theorem spec_examples:
  "isPalindrome R (Str anita) \<and> isPalindrome R (Str se_verlas) \<and>
   \<not> isPalindrome R (Str (js ''hola''))"
  by (simp add: anita_def se_verlas_def normalize_eval)

text \<open>
  C8. For every input that is a single ASCII letter or digit, isPalindrome is true.
\<close>

theorem single_alphanumeric_is_palindrome:
  "is_ascii_letter_or_digit c \<Longrightarrow> isPalindrome R (Str [c])"
  by (simp add: isPalindrome_def normalize_single_alnum reversed_eq_rev)

theorem single_alphanumeric_is_palindrome_witness:
  "is_ascii_letter_or_digit 0x0052 \<and> isPalindrome latin1_runtime (Str [0x0052])"
proof -
  have h: "is_ascii_letter_or_digit 0x0052"
    by (simp add: is_ascii_letter_or_digit_def)
  show ?thesis
    using h single_alphanumeric_is_palindrome [OF h, of latin1_runtime] by simp
qed

text \<open>
  C9. Normalization is idempotent: normalizing a normalized text changes nothing.
\<close>

theorem normalizeWord_idempotent:
  "normalizeWord R (Str (normalizeWord R s)) = normalizeWord R s"
  by (rule normalize_az09_text) (rule normalizeWord_az09)

text \<open>
  C10. Every code unit of normalizeWord's result is a lowercase letter a-z or a digit
  0-9; hence the reversal by code units that isPalindrome performs with
  \<^verbatim>\<open>split('').reverse().join('')\<close> is the reversal by code points of that text.
\<close>

theorem normalized_text_is_ascii:
  "list_all is_az09 (normalizeWord R input) \<and>
   join_units (reverse (split_units (normalizeWord R input)))
     = reverse_code_points (normalizeWord R input)"
  by (simp add: normalizeWord_az09 reversed_eq_rev reverse_code_points_no_lead az09_no_lead)

text \<open>
  A single letter outside ASCII need not be a palindrome: the sharp s (U+00DF) has no
  decomposition, normalizes to the empty text, and is rejected.
\<close>

lemma sharp_s_not_palindrome: "\<not> isPalindrome R (Str [0x00DF])"
  by (simp add: normalize_eval)

section \<open>The route /comprobar\<close>

subsection \<open>trim\<close>

text \<open>
  \<open>trim\<close> cuts white space, and nothing else, from both ends: what is left starts and
  ends with a code unit that is not white space, and is empty exactly when the whole text
  is white space.
\<close>

lemma trim_cut:
  "\<exists>pre post. s = pre @ trim s @ post \<and> list_all is_space pre \<and> list_all is_space post"
proof -
  define t where "t = dropWhile is_space s"
  have s: "s = takeWhile is_space s @ t"
    by (simp add: t_def)
  have "rev (dropWhile is_space (rev t)) @ rev (takeWhile is_space (rev t))
      = rev (takeWhile is_space (rev t) @ dropWhile is_space (rev t))"
    by (simp only: rev_append)
  also have "\<dots> = t"
    by (simp only: takeWhile_dropWhile_id rev_rev_ident)
  finally have t: "t = trim s @ rev (takeWhile is_space (rev t))"
    by (simp add: trim_def t_def)
  have p1: "list_all is_space (takeWhile is_space s)"
    by (simp add: list_all_iff) (meson set_takeWhileD)
  have p2: "list_all is_space (rev (takeWhile is_space (rev t)))"
    by (simp add: list_all_iff) (meson set_takeWhileD)
  from s t have "s = takeWhile is_space s @ trim s @ rev (takeWhile is_space (rev t))"
    by simp
  with p1 p2 show ?thesis by blast
qed

lemma trim_last: "trim s \<noteq> [] \<Longrightarrow> \<not> is_space (last (trim s))"
  by (simp add: trim_def last_rev hd_dropWhile)

lemma last_dropWhile: "dropWhile P xs \<noteq> [] \<Longrightarrow> last (dropWhile P xs) = last xs"
  by (induction xs) (auto split: if_splits)

lemma trim_hd:
  assumes "trim s \<noteq> []"
  shows "\<not> is_space (hd (trim s))"
proof -
  define t where "t = dropWhile is_space s"
  from assms have ne: "dropWhile is_space (rev t) \<noteq> []"
    by (simp add: trim_def t_def)
  then have tne: "t \<noteq> []" by auto
  have "hd (trim s) = last (dropWhile is_space (rev t))"
    using ne by (simp add: trim_def t_def hd_rev)
  also have "\<dots> = last (rev t)" using ne by (rule last_dropWhile)
  also have "\<dots> = hd t" using tne by (simp add: last_rev)
  finally show ?thesis using tne by (simp add: t_def hd_dropWhile)
qed

lemma trim_empty_iff: "trim s = [] \<longleftrightarrow> list_all is_space s"
proof
  assume "trim s = []"
  with trim_cut [of s] show "list_all is_space s" by auto
next
  assume "list_all is_space s"
  then have d: "dropWhile is_space s = []" by (induction s) simp_all
  show "trim s = []" by (simp add: trim_def d)
qed

subsection \<open>The parsed query\<close>

lemma held_addKeyValue:
  "held (addKeyValue obj (k, v)) key = held obj key @ (if k = key then [v] else [])"
  by (auto simp: held_def addKeyValue_def split: option.splits qs_value.splits)

lemma held_foldl:
  "held (foldl addKeyValue obj pairs) key = held obj key @ values_of key pairs"
proof (induction pairs arbitrary: obj)
  case Nil
  then show ?case by (simp add: values_of_def)
next
  case (Cons kv pairs)
  obtain k v where kv: "kv = (k, v)" by (cases kv)
  show ?case
    by (simp add: Cons.IH kv held_addKeyValue values_of_def)
qed

lemma held_parse: "held (querystring_parse R qs) key = values_of key (qs_pairs R qs)"
  by (simp add: querystring_parse_def held_foldl) (simp add: held_def)

lemma palabraRaw_held: "palabraRaw_of q = trim (join (js '','') (held q (js ''palabra'')))"
  by (simp add: palabraRaw_of_def property_def held_def trim_def
      split: option.splits qs_value.splits)

lemma palabraRaw_values:
  "palabraRaw_of (query_of R u) = trim (join (js '','') (palabra_values R u))"
  by (simp add: palabraRaw_held query_of_def held_parse palabra_values_def)

text \<open>
  The query string is the part of the URL after the first \<^verbatim>\<open>?\<close>, up to the next
  \<^verbatim>\<open>?\<close> if there is one: \<^verbatim>\<open>split('?')\<close> cuts at every question mark and the handler takes
  the second piece.
\<close>

lemma split_on_head:
  "split_on sep u =
     takeWhile (\<lambda>c. c \<noteq> sep) u #
       (case dropWhile (\<lambda>c. c \<noteq> sep) u of [] \<Rightarrow> [] | c # r \<Rightarrow> split_on sep r)"
  by (induction u) (auto split: list.splits)

lemma queryString_between:
  "queryString_of u =
     takeWhile (\<lambda>c. c \<noteq> 0x003F) (drop 1 (dropWhile (\<lambda>c. c \<noteq> 0x003F) u))"
proof (cases "dropWhile (\<lambda>c. c \<noteq> 0x003F) u")
  case Nil
  show ?thesis
    by (simp add: queryString_of_def split_on_head [of _ u] Nil)
next
  case (Cons c r)
  show ?thesis
    by (simp add: queryString_of_def split_on_head [of _ u] split_on_head [of _ r] Cons)
qed

lemma strip_no_question_mark:
  "strip_question_mark (takeWhile (\<lambda>c. c \<noteq> 0x003F) r) = takeWhile (\<lambda>c. c \<noteq> 0x003F) r"
  by (cases r) (simp_all add: strip_question_mark_def)

lemma palabraRaw_explicit:
  "palabraRaw_of (query_of R u) =
     trim (join (js '','')
       (map snd (filter (\<lambda>kv. fst kv = js ''palabra'')
         (map (decode_pair R) (filter (\<lambda>p. p \<noteq> [])
           (take 1000 (split_on 0x0026
             (takeWhile (\<lambda>c. c \<noteq> 0x003F) (drop 1 (dropWhile (\<lambda>c. c \<noteq> 0x003F) u))))))))))"
  by (simp add: palabraRaw_values palabra_values_def values_of_def qs_pairs_def
      queryString_between strip_no_question_mark)

lemma palabraRaw_property:
  "palabraRaw_of q =
     (if property q (js ''palabra'') = Undefined then []
      else trim (js_String (property q (js ''palabra''))))"
  by (simp add: palabraRaw_of_def property_def split: option.splits qs_value.splits)

subsection \<open>The handler on the route\<close>

lemma comprobar_not_root: "js ''/comprobar'' \<noteq> js ''/''"
  by (simp add: js_def)

lemma handler_comprobar:
  assumes "req_method req = js ''GET''" and "pathname_of (req_url req) = js ''/comprobar''"
  shows "handler R logPath appendFile req s =
     (let raw = palabraRaw_of (query_of R (req_url req)) in
      if raw = [] then (sendText missing_palabra 400, s)
      else
        let res = isPalindrome R (Str raw);
            (err, s1) = logQuery logPath appendFile raw res s
        in (sendText (mensaje_of raw res) 200,
            case err of None \<Rightarrow> s1 | Some e \<Rightarrow> report_log_error e s1))"
  using assms by (simp add: handler_def Let_def comprobar_not_root)

lemma response_comprobar:
  assumes "req_method req = js ''GET''" and "pathname_of (req_url req) = js ''/comprobar''"
  shows "fst (handler R logPath appendFile req s) =
     (let raw = palabraRaw_of (query_of R (req_url req)) in
      if raw = [] then sendText missing_palabra 400
      else sendText (mensaje_of raw (isPalindrome R (Str raw))) 200)"
  by (simp add: handler_comprobar [OF assms] Let_def split: prod.splits)

lemma get_comprobar:
  "req_method (get u) = js ''GET''"
  "pathname_of (req_url (get (js ''/comprobar?palabra=radar''))) = js ''/comprobar''"
  "pathname_of (req_url (get (js ''/comprobar?palabra=hola''))) = js ''/comprobar''"
  "pathname_of (req_url (get (js ''/comprobar?palabra=hola&palabra=radar''))) = js ''/comprobar''"
  by (simp_all add: get_def pathname_of_def js_def)

lemma radar_palindrome: "isPalindrome R (Str (js ''radar''))"
  by (simp add: normalize_eval)

lemma hola_not_palindrome: "\<not> isPalindrome R (Str (js ''hola''))"
  by (simp add: normalize_eval)

lemma get_paths:
  "pathname_of (req_url (get (js ''/comprobar?palabra=%20+radar%09''))) = js ''/comprobar''"
  "pathname_of (req_url (get (js ''/comprobar?palabra=%20+''))) = js ''/comprobar''"
  by (simp_all add: get_def pathname_of_def js_def)

text \<open>
  C3. For every GET request to /comprobar: when the parameter palabra is absent, or empty
  after trimming the white space around it, the response is plain text with status 400;
  otherwise the status is 200 and the body is exactly "La palabra <raw> es un palindromo"
  or "La palabra <raw> NO es un palindromo", by the verdict of isPalindrome on the trimmed
  value <raw>. The statement says what trimming is: <raw> is the value without a run of
  white space at its start and one at its end, it neither starts nor ends with white
  space, and the request is refused exactly when the value is white space throughout.
\<close>

theorem comprobar_response:
  assumes "req_method req = js ''GET''" and "pathname_of (req_url req) = js ''/comprobar''"
  shows "let v = property (query_of R (req_url req)) (js ''palabra'');
             raw = trim (js_String v);
             rsp = fst (handler R logPath appendFile req s)
         in (\<exists>pre post. js_String v = pre @ raw @ post \<and>
               list_all is_space pre \<and> list_all is_space post) \<and>
            (if v = Undefined \<or> list_all is_space (js_String v)
             then statusCode rsp = 400 \<and> contentType rsp = js ''text/plain; charset=utf-8'' \<and>
                  body rsp = missing_palabra
             else raw \<noteq> [] \<and> \<not> is_space (hd raw) \<and> \<not> is_space (last raw) \<and>
                  statusCode rsp = 200 \<and> contentType rsp = js ''text/plain; charset=utf-8'' \<and>
                  body rsp = js ''La palabra '' @ raw @
                    (if isPalindrome R (Str raw) then js '' es un '' else js '' NO es un '') @
                    palindromo)"
proof -
  define v where "v = property (query_of R (req_url req)) (js ''palabra'')"
  define raw where "raw = trim (js_String v)"
  have cut: "\<exists>pre post. js_String v = pre @ raw @ post \<and>
      list_all is_space pre \<and> list_all is_space post"
    unfolding raw_def by (rule trim_cut)
  have pr: "palabraRaw_of (query_of R (req_url req)) = (if v = Undefined then [] else raw)"
    by (simp add: palabraRaw_property v_def raw_def)
  have blank: "raw = [] \<longleftrightarrow> list_all is_space (js_String v)"
    unfolding raw_def by (rule trim_empty_iff)
  have ends: "raw \<noteq> [] \<Longrightarrow> \<not> is_space (hd raw) \<and> \<not> is_space (last raw)"
    unfolding raw_def by (simp add: trim_hd trim_last)
  have rest: "if v = Undefined \<or> list_all is_space (js_String v)
             then statusCode (fst (handler R logPath appendFile req s)) = 400 \<and>
                  contentType (fst (handler R logPath appendFile req s))
                    = js ''text/plain; charset=utf-8'' \<and>
                  body (fst (handler R logPath appendFile req s)) = missing_palabra
             else raw \<noteq> [] \<and> \<not> is_space (hd raw) \<and> \<not> is_space (last raw) \<and>
                  statusCode (fst (handler R logPath appendFile req s)) = 200 \<and>
                  contentType (fst (handler R logPath appendFile req s))
                    = js ''text/plain; charset=utf-8'' \<and>
                  body (fst (handler R logPath appendFile req s)) = js ''La palabra '' @ raw @
                    (if isPalindrome R (Str raw) then js '' es un '' else js '' NO es un '') @
                    palindromo"
  proof (cases "v = Undefined \<or> list_all is_space (js_String v)")
    case True
    then have "palabraRaw_of (query_of R (req_url req)) = []"
      using pr blank by auto
    with True show ?thesis
      by (simp add: response_comprobar [OF assms] sendText_def)
  next
    case False
    then have ne: "raw \<noteq> []" and p: "palabraRaw_of (query_of R (req_url req)) = raw"
      using pr blank by auto
    from False ne ends [OF ne] show ?thesis
      by (simp add: response_comprobar [OF assms] p sendText_def mensaje_of_def js_def)
  qed
  show ?thesis
    using cut rest unfolding Let_def v_def [symmetric] raw_def [symmetric] by blast
qed

theorem comprobar_response_witness:
  "req_method (get (js ''/comprobar?palabra=radar'')) = js ''GET'' \<and>
   pathname_of (req_url (get (js ''/comprobar?palabra=radar''))) = js ''/comprobar'' \<and>
   statusCode (fst (handler latin1_runtime consultas_txt healthy_disk
       (get (js ''/comprobar?palabra=radar'')) fresh)) = 200 \<and>
   body (fst (handler latin1_runtime consultas_txt healthy_disk
       (get (js ''/comprobar?palabra=radar'')) fresh)) = js ''La palabra radar es un '' @ palindromo \<and>
   pathname_of (req_url (get (js ''/comprobar?palabra=%20+radar%09''))) = js ''/comprobar'' \<and>
   property (query_of latin1_runtime (req_url (get (js ''/comprobar?palabra=%20+radar%09''))))
       (js ''palabra'') = Str padded_radar \<and>
   statusCode (fst (handler latin1_runtime consultas_txt healthy_disk
       (get (js ''/comprobar?palabra=%20+radar%09'')) fresh)) = 200 \<and>
   body (fst (handler latin1_runtime consultas_txt healthy_disk
       (get (js ''/comprobar?palabra=%20+radar%09'')) fresh))
     = js ''La palabra radar es un '' @ palindromo \<and>
   pathname_of (req_url (get (js ''/comprobar?palabra=%20+''))) = js ''/comprobar'' \<and>
   property (query_of latin1_runtime (req_url (get (js ''/comprobar?palabra=%20+''))))
       (js ''palabra'') = Str blank \<and>
   statusCode (fst (handler latin1_runtime consultas_txt healthy_disk
       (get (js ''/comprobar?palabra=%20+'')) fresh)) = 400"
proof -
  have v1: "property (query_of latin1_runtime (req_url (get (js ''/comprobar?palabra=radar''))))
      (js ''palabra'') = Str (js ''radar'')"
    by (simp add: handler_eval js_def)
  have v2: "property (query_of latin1_runtime
      (req_url (get (js ''/comprobar?palabra=%20+radar%09'')))) (js ''palabra'')
      = Str padded_radar"
    by (simp add: handler_eval js_def padded_radar_def)
  have v3: "property (query_of latin1_runtime (req_url (get (js ''/comprobar?palabra=%20+''))))
      (js ''palabra'') = Str blank"
    by (simp add: handler_eval js_def blank_def)
  have t1: "trim (js ''radar'') = js ''radar''"
    by (simp add: trim_def is_space_def js_def)
  have t2: "trim padded_radar = js ''radar''"
    by (simp add: trim_def is_space_def js_def padded_radar_def)
  have s1: "\<not> list_all is_space (js ''radar'')"
    by (simp add: is_space_def js_def)
  have s2: "\<not> list_all is_space padded_radar"
    by (simp add: is_space_def js_def padded_radar_def)
  have s3: "list_all is_space blank"
    by (simp add: is_space_def blank_def)
  have cat: "js ''La palabra '' @ js ''radar'' @ js '' es un '' = js ''La palabra radar es un ''"
    by (simp add: js_def)
  have r1: "statusCode (fst (handler latin1_runtime consultas_txt healthy_disk
       (get (js ''/comprobar?palabra=radar'')) fresh)) = 200 \<and>
     body (fst (handler latin1_runtime consultas_txt healthy_disk
       (get (js ''/comprobar?palabra=radar'')) fresh)) = js ''La palabra radar es un '' @ palindromo"
    using comprobar_response [OF get_comprobar(1,2), of latin1_runtime consultas_txt healthy_disk fresh]
    by (simp add: Let_def v1 t1 s1 radar_palindrome cat)
  have r2: "statusCode (fst (handler latin1_runtime consultas_txt healthy_disk
       (get (js ''/comprobar?palabra=%20+radar%09'')) fresh)) = 200 \<and>
     body (fst (handler latin1_runtime consultas_txt healthy_disk
       (get (js ''/comprobar?palabra=%20+radar%09'')) fresh))
       = js ''La palabra radar es un '' @ palindromo"
    using comprobar_response [OF get_comprobar(1) get_paths(1), of latin1_runtime consultas_txt healthy_disk fresh]
    by (simp add: Let_def v2 t2 s2 radar_palindrome cat)
  have r3: "statusCode (fst (handler latin1_runtime consultas_txt healthy_disk
       (get (js ''/comprobar?palabra=%20+'')) fresh)) = 400"
    using comprobar_response [OF get_comprobar(1) get_paths(2), of latin1_runtime consultas_txt healthy_disk fresh]
    by (simp add: Let_def v3 s3)
  show ?thesis
    using r1 r2 r3 by (intro conjI get_comprobar get_paths v2 v3) simp_all
qed

text \<open>
  C4, as stated: when the query string repeats the key palabra, the handler uses the value
  of the last occurrence. It does not: for \<^verbatim>\<open>/comprobar?palabra=hola&palabra=radar\<close> the
  parser returns the array of both values, \<^verbatim>\<open>String\<close> joins them with a comma, and the
  answer is about "hola,radar", not about "radar".
\<close>

theorem last_occurrence_counterexample:
  "property (query_of latin1_runtime (js ''/comprobar?palabra=hola&palabra=radar''))
       (js ''palabra'') = Arr [js ''hola'', js ''radar''] \<and>
   body (fst (handler latin1_runtime consultas_txt healthy_disk
       (get (js ''/comprobar?palabra=hola&palabra=radar'')) fresh))
     = js ''La palabra hola,radar NO es un '' @ palindromo \<and>
   body (fst (handler latin1_runtime consultas_txt healthy_disk
       (get (js ''/comprobar?palabra=hola&palabra=radar'')) fresh))
     \<noteq> js ''La palabra radar es un '' @ palindromo"
  by (simp add: handler_eval normalize_eval split: prod.splits)

text \<open>
  C4, amended: the query string is the part of the URL between the first question mark
  and the next one (or the end); of its pieces between ampersands, the first 1000 are
  read and the empty ones among them skipped. The value that the handler validates,
  checks and reports is the comma-separated list of the decoded values of all those
  pieces whose decoded key is palabra, in order of appearance, trimmed as a whole (one
  such piece: its value; none: the empty text, and the request is refused).
\<close>

theorem repeated_palabra_joined:
  assumes "req_method req = js ''GET''" and "pathname_of (req_url req) = js ''/comprobar''"
  shows "fst (handler R logPath appendFile req s) =
     (let queryString = takeWhile (\<lambda>c. c \<noteq> 0x003F)
                          (drop 1 (dropWhile (\<lambda>c. c \<noteq> 0x003F) (req_url req)));
          pieces = filter (\<lambda>p. p \<noteq> []) (take 1000 (split_on 0x0026 queryString));
          vals = map snd (filter (\<lambda>kv. fst kv = js ''palabra'') (map (decode_pair R) pieces));
          raw = trim (join (js '','') vals)
      in if raw = [] then sendText missing_palabra 400
         else sendText (mensaje_of raw (isPalindrome R (Str raw))) 200)"
  by (simp add: response_comprobar [OF assms] palabraRaw_explicit Let_def)

theorem repeated_palabra_joined_witness:
  "req_method (get (js ''/comprobar?palabra=hola&palabra=radar'')) = js ''GET'' \<and>
   pathname_of (req_url (get (js ''/comprobar?palabra=hola&palabra=radar''))) = js ''/comprobar'' \<and>
   fst (handler latin1_runtime consultas_txt healthy_disk
       (get (js ''/comprobar?palabra=hola&palabra=radar'')) fresh)
     = sendText (js ''La palabra hola,radar NO es un '' @ palindromo) 200"
proof -
  have raw: "trim (join (js '','')
       (map snd (filter (\<lambda>kv. fst kv = js ''palabra'')
         (map (decode_pair latin1_runtime) (filter (\<lambda>p. p \<noteq> [])
           (take 1000 (split_on 0x0026
             (takeWhile (\<lambda>c. c \<noteq> 0x003F) (drop 1 (dropWhile (\<lambda>c. c \<noteq> 0x003F)
               (req_url (get (js ''/comprobar?palabra=hola&palabra=radar'')))))))))))))
      = js ''hola,radar''"
    by (simp add: handler_eval js_def)
  have ne: "js ''hola,radar'' \<noteq> []"
    by (simp add: js_def)
  have no: "\<not> isPalindrome latin1_runtime (Str (js ''hola,radar''))"
    by (simp add: normalize_eval)
  have msg: "mensaje_of (js ''hola,radar'') False = js ''La palabra hola,radar NO es un '' @ palindromo"
    by (simp add: mensaje_of_def js_def)
  have "fst (handler latin1_runtime consultas_txt healthy_disk
       (get (js ''/comprobar?palabra=hola&palabra=radar'')) fresh)
     = sendText (js ''La palabra hola,radar NO es un '' @ palindromo) 200"
    using repeated_palabra_joined [OF get_comprobar(1,4), of latin1_runtime consultas_txt healthy_disk fresh]
    unfolding Let_def raw by (simp add: ne no msg)
  then show ?thesis
    by (intro conjI get_comprobar)
qed

subsection \<open>Logging\<close>

text \<open>
  C5. For every valid request to /comprobar whose append to the log fails, the failure is
  caught: the response is the status 200 with the message, the same response as with any
  other disk (one where the append succeeds included), and the error is reported on
  \<^verbatim>\<open>console.error\<close>.
\<close>

theorem logging_failure_keeps_response:
  assumes "req_method req = js ''GET''" and "pathname_of (req_url req) = js ''/comprobar''"
    and "palabraRaw_of (query_of R (req_url req)) = raw" and "raw \<noteq> []"
    and "fst (appendFile logPath (log_line raw (isPalindrome R (Str raw))) (disk s)) = Some err"
  shows "fst (handler R logPath appendFile req s)
           = sendText (mensaje_of raw (isPalindrome R (Str raw))) 200 \<and>
         fst (handler R logPath appendFile req s) = fst (handler R logPath' appendFile' req s') \<and>
         console_error (snd (handler R logPath appendFile req s))
           = console_error s @
             [[Text (js ''[logQuery] Error:''),
               (if message err \<noteq> [] then Text (message err) else Thrown err)]]"
proof -
  have rsp: "fst (handler R lp ap req st) = sendText (mensaje_of raw (isPalindrome R (Str raw))) 200"
    for lp and ap :: "'c appendFile" and st
    using assms(3,4) by (simp add: response_comprobar [OF assms(1,2)])
  have con: "console_error (snd (handler R logPath appendFile req s))
           = console_error s @
             [[Text (js ''[logQuery] Error:''),
               (if message err \<noteq> [] then Text (message err) else Thrown err)]]"
  proof (cases "appendFile logPath (log_line raw (isPalindrome R (Str raw))) (disk s)")
    case (Pair e d)
    with assms(5) have "e = Some err" by simp
    with Pair assms(3,4) show ?thesis
      by (simp add: handler_comprobar [OF assms(1,2)] logQuery_def report_log_error_def Let_def)
  qed
  show ?thesis
    using rsp [of logPath appendFile s] rsp [of logPath' appendFile' s'] con by simp
qed

theorem logging_failure_keeps_response_witness:
  "req_method (get (js ''/comprobar?palabra=radar'')) = js ''GET'' \<and>
   pathname_of (req_url (get (js ''/comprobar?palabra=radar''))) = js ''/comprobar'' \<and>
   palabraRaw_of (query_of latin1_runtime (req_url (get (js ''/comprobar?palabra=radar''))))
     = js ''radar'' \<and>
   js ''radar'' \<noteq> [] \<and>
   fst (broken_disk consultas_txt
         (log_line (js ''radar'') (isPalindrome latin1_runtime (Str (js ''radar'')))) (disk fresh))
     = Some (IOError (js ''EACCES: permission denied'')) \<and>
   fst (handler latin1_runtime consultas_txt broken_disk (get (js ''/comprobar?palabra=radar'')) fresh)
     = sendText (js ''La palabra radar es un '' @ palindromo) 200 \<and>
   fst (handler latin1_runtime consultas_txt broken_disk (get (js ''/comprobar?palabra=radar'')) fresh)
     = fst (handler latin1_runtime consultas_txt healthy_disk
         (get (js ''/comprobar?palabra=radar'')) fresh) \<and>
   console_error (snd (handler latin1_runtime consultas_txt broken_disk
       (get (js ''/comprobar?palabra=radar'')) fresh))
     = [[Text (js ''[logQuery] Error:''), Text (js ''EACCES: permission denied'')]]"
proof -
  have raw: "palabraRaw_of (query_of latin1_runtime
      (req_url (get (js ''/comprobar?palabra=radar'')))) = js ''radar''"
    by (simp add: handler_eval js_def)
  have ne: "js ''radar'' \<noteq> []"
    by (simp add: js_def)
  have err: "fst (broken_disk consultas_txt
      (log_line (js ''radar'') (isPalindrome latin1_runtime (Str (js ''radar'')))) (disk fresh))
      = Some (IOError (js ''EACCES: permission denied''))"
    by (simp add: broken_disk_def)
  have msg: "mensaje_of (js ''radar'') True = js ''La palabra radar es un '' @ palindromo"
    by (simp add: mensaje_of_def js_def)
  have nm: "js ''EACCES: permission denied'' \<noteq> []"
    by (simp add: js_def)
  have con: "console_error fresh = []"
    by (simp add: fresh_def)
  note kept = logging_failure_keeps_response [where req = "get (js ''/comprobar?palabra=radar'')"
      and R = latin1_runtime and raw = "js ''radar''" and appendFile = broken_disk
      and logPath = consultas_txt and s = fresh and appendFile' = healthy_disk
      and logPath' = consultas_txt and s' = fresh, OF get_comprobar(1,2) raw ne err]
  have r1: "fst (handler latin1_runtime consultas_txt broken_disk
      (get (js ''/comprobar?palabra=radar'')) fresh)
      = sendText (js ''La palabra radar es un '' @ palindromo) 200"
    using kept by (simp add: radar_palindrome msg)
  have r2: "fst (handler latin1_runtime consultas_txt broken_disk
      (get (js ''/comprobar?palabra=radar'')) fresh)
      = fst (handler latin1_runtime consultas_txt healthy_disk
          (get (js ''/comprobar?palabra=radar'')) fresh)"
    using kept by blast
  have r3: "console_error (snd (handler latin1_runtime consultas_txt broken_disk
      (get (js ''/comprobar?palabra=radar'')) fresh))
      = [[Text (js ''[logQuery] Error:''), Text (js ''EACCES: permission denied'')]]"
    using kept by (simp add: nm con)
  show ?thesis
    by (intro conjI get_comprobar raw ne err r1 r2 r3)
qed

text \<open>
  What holds for every successful call of /comprobar: \<^verbatim>\<open>appendFile\<close> is called exactly
  once, on the log path, with the text "El usuario ha comprobado la palabra "<raw>" y es
  un palindromo." or "... y NO es un palindromo." followed by one line feed, where <raw>
  is the trimmed value and es / NO es is the verdict of the response; the disk afterwards
  is the one that call leaves. The text has one line feed more than <raw> has.
\<close>

lemma comprobar_appends_once:
  assumes "req_method req = js ''GET''" and "pathname_of (req_url req) = js ''/comprobar''"
    and "statusCode (fst (handler R logPath appendFile req s)) = 200"
  shows \<open>let raw = palabraRaw_of (query_of R (req_url req));
             verdict = isPalindrome R (Str raw);
             text = js ''El usuario ha comprobado la palabra "'' @ raw @ js ''" y '' @
                    (if verdict then js ''es'' else js ''NO es'') @ js '' un '' @ palindromo @
                    js ''.'' @ [0x000A]
         in appendFile_calls (snd (handler R logPath appendFile req s))
              = appendFile_calls s @ [(logPath, text)] \<and>
            disk (snd (handler R logPath appendFile req s))
              = snd (appendFile logPath text (disk s)) \<and>
            body (fst (handler R logPath appendFile req s))
              = js ''La palabra '' @ raw @ js '' '' @
                (if verdict then js ''es'' else js ''NO es'') @ js '' un '' @ palindromo \<and>
            count_list text 0x000A = 1 + count_list raw 0x000A\<close>
proof -
  define raw where "raw = palabraRaw_of (query_of R (req_url req))"
  have ne: "raw \<noteq> []"
    using assms(3)
    by (auto simp: response_comprobar [OF assms(1,2)] raw_def sendText_def Let_def
        split: if_splits)
  have calls: "appendFile_calls (snd (handler R logPath appendFile req s))
      = appendFile_calls s @ [(logPath, log_line raw (isPalindrome R (Str raw)))]"
    using ne
    by (simp add: handler_comprobar [OF assms(1,2)] raw_def [symmetric] logQuery_def
        report_log_error_def Let_def split: prod.splits option.splits)
  have dsk: "disk (snd (handler R logPath appendFile req s))
      = snd (appendFile logPath (log_line raw (isPalindrome R (Str raw))) (disk s))"
    using ne
    by (simp add: handler_comprobar [OF assms(1,2)] raw_def [symmetric] logQuery_def
        report_log_error_def Let_def split: prod.splits option.splits)
  have bd: "body (fst (handler R logPath appendFile req s))
      = mensaje_of raw (isPalindrome R (Str raw))"
    using ne by (simp add: response_comprobar [OF assms(1,2)] raw_def [symmetric] sendText_def)
  have cnt: "count_list (log_line raw v) 0x000A = 1 + count_list raw 0x000A" for v
    by (simp add: log_line_def palindromo_def js_def)
  show ?thesis
    using calls dsk bd cnt [of "isPalindrome R (Str raw)"]
    by (simp add: raw_def [symmetric] Let_def log_line_def mensaje_of_def)
qed

text \<open>
  C6. Every successful call of /comprobar attempts to append exactly one line to the log
  file, of the form "El usuario ha comprobado la palabra "<raw>" y es un palindromo." or
  "... y NO es un palindromo.". \<^verbatim>\<open>logQuery\<close> is documented as appending a log line, but
  it writes the value as it is, and the handler trims the value at its ends only. At the
  request \<^verbatim>\<open>/comprobar?palabra=a%0Ab\<close>, answered with status 200, the one call of
  \<^verbatim>\<open>appendFile\<close> carries a line feed inside the value, and an empty log holds two lines
  afterwards.
\<close>

theorem log_line_feed_in_value:
  \<open>statusCode (fst (handler latin1_runtime consultas_txt healthy_disk
       (get (js ''/comprobar?palabra=a%0Ab'')) fresh)) = 200 \<and>
   appendFile_calls (snd (handler latin1_runtime consultas_txt healthy_disk
       (get (js ''/comprobar?palabra=a%0Ab'')) fresh))
     = [(consultas_txt,
         js ''El usuario ha comprobado la palabra "a'' @ [0x000A] @
         js ''b" y NO es un '' @ palindromo @ js ''.'' @ [0x000A])] \<and>
   split_on 0x000A (disk (snd (handler latin1_runtime consultas_txt healthy_disk
       (get (js ''/comprobar?palabra=a%0Ab'')) fresh)))
     = [js ''El usuario ha comprobado la palabra "a'',
        js ''b" y NO es un '' @ palindromo @ js ''.'',
        []]\<close>
  by (simp add: handler_eval normalize_eval Let_def)

end
